theory Spec2Isabelle
  imports Main "HOL-Library.Signed_Division" "HOL-Library.Sublist"
begin

section \<open>Date arithmetic (timeUtils.ts)\<close>

text \<open>
  A JavaScript \<open>Date\<close> is an instant: a number of milliseconds since the epoch, here an
  \<open>int\<close> (all the instants and differences the extension meets are far below \<open>2^53\<close>,
  where the arithmetic of JavaScript numbers is exact).
\<close>

definition ONE_DAY_IN_MS :: int where
  "ONE_DAY_IN_MS = 86400000"

text \<open>\<open>Math.trunc((+d2 - +d1) / ONE_DAY_IN_MS)\<close>: the quotient rounded toward zero.\<close>

definition calcDiffInDays :: "int \<Rightarrow> int \<Rightarrow> int" where
  "calcDiffInDays d1 d2 = (d2 - d1) sdiv ONE_DAY_IN_MS"

definition shiftDays :: "int \<Rightarrow> int \<Rightarrow> int" where
  "shiftDays date numberOfDays = date + ONE_DAY_IN_MS * numberOfDays"

text \<open>
  Local time depends on the time zone of the host. ECMAScript describes a zone by two
  offsets in milliseconds: \<open>LocalTZA(t, true)\<close>, the offset of local time at the instant
  \<open>t\<close>, and \<open>LocalTZA(t, false)\<close>, the offset by which the local time \<open>t\<close> is read as an
  instant. Where the clocks change for daylight saving, both change with \<open>t\<close>.
\<close>

record zone =
  utcOffset :: "int \<Rightarrow> int"
  localOffset :: "int \<Rightarrow> int"

definition LocalTime :: "zone \<Rightarrow> int \<Rightarrow> int" where
  "LocalTime z t = t + utcOffset z t"

definition UTC :: "zone \<Rightarrow> int \<Rightarrow> int" where
  "UTC z t = t - localOffset z t"

text \<open>The number of the local calendar day an instant falls on (day 0 is 1970-01-01).\<close>

definition localDay_zone :: "zone \<Rightarrow> int \<Rightarrow> int" where
  "localDay_zone z t = LocalTime z t div ONE_DAY_IN_MS"

text \<open>
  \<open>shortenToDate\<close> is \<open>new Date(new Date(date).setHours(0, 0, 0, 0))\<close>, and
  \<open>setHours(0, 0, 0, 0)\<close> is the instant \<open>UTC(MakeDate(Day(LocalTime(t)), 0))\<close>: the
  midnight of the local day, read as an instant with the offset that holds at that midnight.
\<close>

definition shortenToDate_zone :: "zone \<Rightarrow> int \<Rightarrow> int" where
  "shortenToDate_zone z date = UTC z (localDay_zone z date * ONE_DAY_IN_MS)"

text \<open>
  \<open>isTheSameDay\<close> compares \<open>toDateString()\<close>, which prints the weekday, month, day and
  year of the local day.
\<close>

definition isTheSameDay_zone :: "zone \<Rightarrow> int \<Rightarrow> int \<Rightarrow> bool" where
  "isTheSameDay_zone z d1 d2 = (localDay_zone z d1 = localDay_zone z d2)"

text \<open>A zone whose offset is \<open>tz\<close> at every instant, such as UTC.\<close>

definition fixedZone :: "int \<Rightarrow> zone" where
  "fixedZone tz = \<lparr>utcOffset = (\<lambda>t. tz), localOffset = (\<lambda>t. tz)\<rparr>"


text \<open>
  The due date engine is modelled for a host in a zone of fixed offset \<open>tz\<close>; there the
  functions above are the following ones (lemmas \<open>localDay_zone_fixed\<close>,
  \<open>shortenToDate_zone_fixed\<close> and \<open>isTheSameDay_zone_fixed\<close> below).
\<close>

definition localDay :: "int \<Rightarrow> int \<Rightarrow> int" where
  "localDay tz t = (t + tz) div ONE_DAY_IN_MS"

definition shortenToDate :: "int \<Rightarrow> int \<Rightarrow> int" where
  "shortenToDate tz date = localDay tz date * ONE_DAY_IN_MS - tz"

definition isTheSameDay :: "int \<Rightarrow> int \<Rightarrow> int \<Rightarrow> bool" where
  "isTheSameDay tz d1 d2 = (localDay tz d1 = localDay tz d2)"

text \<open>\<open>getDay()\<close> in a zone of fixed offset: 0 is Sunday; 1970-01-01 was a Thursday.\<close>

definition getDay :: "int \<Rightarrow> int \<Rightarrow> int" where
  "getDay tz t = (localDay tz t + 4) mod 7"

text \<open>The same in a zone whose offset changes.\<close>

definition getDay_zone :: "zone \<Rightarrow> int \<Rightarrow> int" where
  "getDay_zone z t = (localDay_zone z t + 4) mod 7"

text \<open>
  \<open>new Date(year, month, date)\<close> as ECMAScript defines it: a year from 0 to 99 means
  1900 + year, a month index outside 0..11 carries into the year, and the day of the month
  is an offset from the first of the month, so that it overflows into the next months.
\<close>

definition DayFromYear :: "int \<Rightarrow> int" where
  "DayFromYear y = 365 * (y - 1970) + (y - 1969) div 4 - (y - 1901) div 100 + (y - 1601) div 400"

definition InLeapYear :: "int \<Rightarrow> bool" where
  "InLeapYear y = ((y mod 4 = 0 \<and> y mod 100 \<noteq> 0) \<or> y mod 400 = 0)"

definition monthStart :: "bool \<Rightarrow> int \<Rightarrow> int" where
  "monthStart leap m =
     (let l = (if leap then 1 else 0) in
      if m = 0 then 0 else if m = 1 then 31 else if m = 2 then 59 + l
      else if m = 3 then 90 + l else if m = 4 then 120 + l else if m = 5 then 151 + l
      else if m = 6 then 181 + l else if m = 7 then 212 + l else if m = 8 then 243 + l
      else if m = 9 then 273 + l else if m = 10 then 304 + l else 334 + l)"

definition MakeDay :: "int \<Rightarrow> int \<Rightarrow> int \<Rightarrow> int" where
  "MakeDay year month date =
     (let ym = year + month div 12; mn = month mod 12
      in DayFromYear ym + monthStart (InLeapYear ym) mn + date - 1)"

definition newDate_zone :: "zone \<Rightarrow> int \<Rightarrow> int \<Rightarrow> int \<Rightarrow> int" where
  "newDate_zone z year month date =
     (let yr = (if 0 \<le> year \<and> year \<le> 99 then 1900 + year else year)
      in UTC z (MakeDay yr month date * ONE_DAY_IN_MS))"

text \<open>In a zone of fixed offset \<open>tz\<close> (lemma \<open>newDate_zone_fixed\<close> below):\<close>

definition newDate :: "int \<Rightarrow> int \<Rightarrow> int \<Rightarrow> int \<Rightarrow> int" where
  "newDate tz year month date =
     (let yr = (if 0 \<le> year \<and> year \<le> 99 then 1900 + year else year)
      in MakeDay yr month date * ONE_DAY_IN_MS - tz)"

section \<open>Due states and the regular expressions of timeUtils.ts\<close>

datatype DueState = NotDue | Due | Overdue | Invalid

record DueReturn =
  isRecurring :: bool
  isRange :: bool
  isDue :: DueState

datatype error = Error string

text \<open>
  Strings are lists of characters: a character stands for the code unit of its number, so
  that the strings of the model are the JavaScript strings of code units below 256. The
  classes \<open>\d\<close>, \<open>\w\<close> and \<open>\s\<close> of JavaScript regular expressions on these code units;
  \<open>\s\<close> holds the ASCII white space and the no-break space U+00A0.
\<close>

definition is_digit :: "char \<Rightarrow> bool" where
  "is_digit c = (c \<in> set ''0123456789'')"

definition is_word :: "char \<Rightarrow> bool" where
  "is_word c = (c \<in> set ''abcdefghijklmnopqrstuvwxyzABCDEFGHIJKLMNOPQRSTUVWXYZ0123456789_'')"

definition is_space :: "char \<Rightarrow> bool" where
  "is_space c = (c \<in> set [CHR '' '', CHR 0x09, CHR 0x0A, CHR 0x0B, CHR 0x0C, CHR 0x0D, CHR 0xA0])"

text \<open>\<open>Number(s)\<close> and \<open>+s\<close>, on the strings of digits that \<open>\d\<close> groups capture.\<close>

definition Number :: "string \<Rightarrow> int" where
  "Number s = foldl (\<lambda>n c. 10 * n + (of_char c - 48)) 0 s"

text \<open>The first alternative that succeeds, in the order a backtracking matcher tries them.\<close>

fun firstSome :: "('a \<Rightarrow> 'b option) \<Rightarrow> 'a list \<Rightarrow> 'b option" where
  "firstSome f [] = None"
| "firstSome f (x # xs) = (case f x of Some y \<Rightarrow> Some y | None \<Rightarrow> firstSome f xs)"

text \<open>
  \<open>regexp.exec(s)\<close> for a pattern without anchors: the match at the leftmost position
  where the pattern matches; \<open>m\<close> matches the pattern at the start of a string.
\<close>

fun regexp_exec :: "(string \<Rightarrow> 'm option) \<Rightarrow> string \<Rightarrow> 'm option" where
  "regexp_exec m [] = m []"
| "regexp_exec m (c # cs) = (case m (c # cs) of Some r \<Rightarrow> Some r | None \<Rightarrow> regexp_exec m cs)"

text \<open>
  \<open>dueWithDateRegexp = /(\d\d\d\d)-(\d\d)-(\d\d)(-(\w+))?/\<close>. The result holds the groups
  1, 2, 3 and 5; group 5 is undefined when the optional group does not match.
\<close>

definition optionalAlgorithm :: "string \<Rightarrow> string option" where
  "optionalAlgorithm s =
     (case s of
        [] \<Rightarrow> None
      | c # r \<Rightarrow> if c = CHR ''-'' \<and> takeWhile is_word r \<noteq> [] then Some (takeWhile is_word r) else None)"

definition dueWithDateRegexp :: "string \<Rightarrow> (string \<times> string \<times> string \<times> string option) option" where
  "dueWithDateRegexp s =
     (if 10 \<le> length s \<and> list_all is_digit (take 4 s) \<and> s ! 4 = CHR ''-''
         \<and> list_all is_digit (take 2 (drop 5 s)) \<and> s ! 7 = CHR ''-''
         \<and> list_all is_digit (take 2 (drop 8 s))
      then Some (take 4 s, take 2 (drop 5 s), take 2 (drop 8 s), optionalAlgorithm (drop 10 s))
      else None)"

text \<open>
  \<open>everyNDayRegexp = /e(\d+)d/\<close>, with group 1. The digits are taken greedily; giving one
  back never helps, since the character after a shorter run is a digit and not \<open>d\<close>.
\<close>

definition everyNDayRegexp :: "string \<Rightarrow> string option" where
  "everyNDayRegexp s =
     (case s of
        [] \<Rightarrow> None
      | c # r \<Rightarrow>
          if c = CHR ''e'' \<and> takeWhile is_digit r \<noteq> []
             \<and> (case dropWhile is_digit r of [] \<Rightarrow> False | x # _ \<Rightarrow> x = CHR ''d'')
          then Some (takeWhile is_digit r) else None)"

text \<open>
  The pattern of \<open>isDueWithDate\<close>, \<open>/(?!every|each|e)\s?(\d+)?\s?(d|days?)/\<close>, with the
  groups 1 (undefined when skipped) and 2. Each optional part lists its alternatives in the
  order the matcher tries them: the longer match first.
\<close>

definition optSpace :: "string \<Rightarrow> string list" where
  "optSpace s = (case s of [] \<Rightarrow> [s] | c # r \<Rightarrow> if is_space c then [r, s] else [s])"

definition optDigits :: "string \<Rightarrow> (string option \<times> string) list" where
  "optDigits s =
     map (\<lambda>k. (Some (take k s), drop k s)) (rev [1..<Suc (length (takeWhile is_digit s))])
     @ [(None, s)]"

definition unitAlternatives :: "string \<Rightarrow> string option" where
  "unitAlternatives s =
     (if prefix ''d'' s then Some ''d''
      else if prefix ''days'' s then Some ''days''
      else if prefix ''day'' s then Some ''day''
      else None)"

definition dueAlgorithmRegexp :: "string \<Rightarrow> (string option \<times> string) option" where
  "dueAlgorithmRegexp s =
     (if prefix ''every'' s \<or> prefix ''each'' s \<or> prefix ''e'' s then None
      else firstSome (\<lambda>s1.
             firstSome (\<lambda>(g1, s2).
               firstSome (\<lambda>s3. map_option (\<lambda>g2. (g1, g2)) (unitAlternatives s3)) (optSpace s2))
             (optDigits s1))
           (optSpace s))"

text \<open>\<open>s.split(sep)\<close> for a separator that is not empty.\<close>

fun split :: "string \<Rightarrow> string \<Rightarrow> string list" where
  "split sep [] = [[]]"
| "split sep (c # cs) =
     (if sep \<noteq> [] \<and> prefix sep (c # cs) then [] # split sep (drop (length sep) (c # cs))
      else (case split sep cs of [] \<Rightarrow> [[c]] | s # ss \<Rightarrow> (c # s) # ss))"

section \<open>The due date engine (timeUtils.ts)\<close>

text \<open>
  What the engine reads from its host: the fixed offset of its zone, the clock (\<open>new Date()\<close>
  and \<open>dayjs()\<close>, one reading for an evaluation) and the date library dayjs, which is not
  part of the repository. \<open>dayjs h s\<close> is \<open>dayjs(s)\<close>, the instant the library parses
  from a string, \<open>None\<close> for an invalid date; \<open>isBefore_day h a b\<close> is
  \<open>a.isBefore(b, 'day')\<close> and \<open>isBetween_day h x a b\<close> is \<open>x.isBetween(a, b, 'day', '[]')\<close>.
\<close>

record host =
  LocalTZA :: int
  now :: int
  dayjs :: "string \<Rightarrow> int option"
  isBefore_day :: "int option \<Rightarrow> int option \<Rightarrow> bool"
  isBetween_day :: "int option \<Rightarrow> int option \<Rightarrow> int option \<Rightarrow> bool"

definition isDueExactDate :: "host \<Rightarrow> int \<Rightarrow> DueState" where
  "isDueExactDate h date =
     (if now h < date then NotDue
      else let diffInDays = calcDiffInDays (shortenToDate (LocalTZA h) (now h))
                                           (shortenToDate (LocalTZA h) date)
           in if diffInDays = 0 then Due else Overdue)"

definition isDueBetween :: "host \<Rightarrow> string \<Rightarrow> string \<Rightarrow> DueReturn" where
  "isDueBetween h d1 d2 =
     (let date1 = dayjs h d1; date2 = dayjs h d2;
          isDue' = (if isBefore_day h date1 (Some (now h)) \<and> isBefore_day h date2 (Some (now h))
                    then Overdue
                    else if isBetween_day h (Some (now h)) (dayjs h d1) (dayjs h d2) then Due
                    else NotDue)
      in \<lparr>isRecurring = False, isRange = True, isDue = isDue'\<rparr>)"

definition isDueToday :: "host \<Rightarrow> string \<Rightarrow> DueState" where
  "isDueToday h due =
     (if due = ''ed'' then Due
      else let day = getDay (LocalTZA h) (now h) in
        if due = ''Sun'' \<and> day = 0 then Due
        else if due = ''Mon'' \<and> day = 1 then Due
        else if due = ''Tue'' \<and> day = 2 then Due
        else if due = ''Wed'' \<and> day = 3 then Due
        else if due = ''Thu'' \<and> day = 4 then Due
        else if due = ''Fri'' \<and> day = 5 then Due
        else if due = ''Sat'' \<and> day = 6 then Due
        else NotDue)"

text \<open>
  \<open>isDueWithDate(dueDate, dueDateStart, date)\<close>; \<open>dueDateStart\<close> may be undefined, and
  then the function throws. \<open>diffInDays % interval === 0\<close> is false when the interval is 0
  (the remainder is NaN); otherwise \<open>%\<close> is the remainder with the sign of the dividend.
  The function is exported; its first argument here is the zone of the host.
\<close>

definition isDueWithDate :: "zone \<Rightarrow> string \<Rightarrow> int option \<Rightarrow> int \<Rightarrow> error + DueState" where
  "isDueWithDate z dueDate dueDateStart date =
     (case dueDateStart of
        None \<Rightarrow> Inl (Error ''dueDate was specified, but dueDateStart is missing'')
      | Some start \<Rightarrow>
          (case regexp_exec dueAlgorithmRegexp dueDate of
             None \<Rightarrow> Inr NotDue
           | Some (g1, unit) \<Rightarrow>
               let interval = (case g1 of Some ds \<Rightarrow> Number ds | None \<Rightarrow> 1) in
               if unit \<in> {''d'', ''day'', ''days''} then
                 let diffInDays = calcDiffInDays (shortenToDate_zone z start)
                                                 (shortenToDate_zone z date)
                 in if interval \<noteq> 0 \<and> diffInDays smod interval = 0 then Inr Due else Inr NotDue
               else Inr NotDue))"

definition parseDueDate :: "host \<Rightarrow> string \<Rightarrow> error + DueReturn" where
  "parseDueDate h due =
     (if due = ''today'' then Inr \<lparr>isRecurring = False, isRange = False, isDue = Due\<rparr>
      else let tryAsRange = split ''..'' due in
        if length tryAsRange > 1 then Inr (isDueBetween h (tryAsRange ! 0) (tryAsRange ! 1))
        else
          (case regexp_exec dueWithDateRegexp due of
             Some (m1, m2, m3, m5) \<Rightarrow>
               let year = Number m1; month = Number m2 - 1; date = Number m3;
                   dateObject = newDate (LocalTZA h) year month date
               in (case m5 of
                     None \<Rightarrow>
                       Inr \<lparr>isRecurring = False, isRange = False, isDue = isDueExactDate h dateObject\<rparr>
                   | Some dueAlgorithm \<Rightarrow>
                       (case regexp_exec everyNDayRegexp dueAlgorithm of
                          None \<Rightarrow> Inr \<lparr>isRecurring = True, isRange = False, isDue = NotDue\<rparr>
                        | Some everyNDay \<Rightarrow>
                            (case isDueWithDate (fixedZone (LocalTZA h)) dueAlgorithm
                                    (Some (newDate (LocalTZA h) year month date)) (now h) of
                               Inl e \<Rightarrow> Inl e
                             | Inr s \<Rightarrow> Inr \<lparr>isRecurring = True, isRange = False, isDue = s\<rparr>)))
           | None \<Rightarrow>
               Inr \<lparr>isRecurring = True, isRange = False, isDue = isDueToday h due\<rparr>))"

text \<open>\<open>map\<close> over a function that may throw: the first error ends the whole call.\<close>

fun mapResult :: "('a \<Rightarrow> 'e + 'b) \<Rightarrow> 'a list \<Rightarrow> 'e + 'b list" where
  "mapResult f [] = Inr []"
| "mapResult f (x # xs) =
     (case f x of
        Inl e \<Rightarrow> Inl e
      | Inr y \<Rightarrow> (case mapResult f xs of Inl e \<Rightarrow> Inl e | Inr ys \<Rightarrow> Inr (y # ys)))"

definition parseDue :: "host \<Rightarrow> string \<Rightarrow> error + DueReturn list" where
  "parseDue h due =
     (let dueDates = filter (\<lambda>d. length d \<noteq> 0) (split '','' due)
      in mapResult (parseDueDate h) dueDates)"

text \<open>
  A host for the examples. Its library reads a string of the form YYYY-MM-DD as the local
  midnight of that date, as dayjs does; dayjs reads more forms (\<open>2018-1-1\<close>, dates with a
  time), which this host, made for examples with dates of that one form, takes for invalid
  dates like every other string. It compares at the granularity of a day as dayjs does:
  \<open>a.isBefore(b, 'day')\<close> is \<open>a.endOf('day') < b\<close>, \<open>a.isAfter(b, 'day')\<close> is
  \<open>b < a.startOf('day')\<close>, a comparison with an invalid date is false, and \<open>isBetween\<close>
  with \<open>'[]'\<close> accepts the two bounds in either order.
\<close>

definition isoDate :: "int \<Rightarrow> string \<Rightarrow> int option" where
  "isoDate tz s =
     (case dueWithDateRegexp s of
        None \<Rightarrow> None
      | Some (y, m, d, a) \<Rightarrow>
          if length s = 10 then Some (newDate tz (Number y) (Number m - 1) (Number d)) else None)"

definition dayjs_isBefore :: "int \<Rightarrow> int option \<Rightarrow> int option \<Rightarrow> bool" where
  "dayjs_isBefore tz a b =
     (case a of None \<Rightarrow> False
      | Some x \<Rightarrow> (case b of None \<Rightarrow> False
                  | Some y \<Rightarrow> shortenToDate tz x + ONE_DAY_IN_MS - 1 < y))"

definition dayjs_isAfter :: "int \<Rightarrow> int option \<Rightarrow> int option \<Rightarrow> bool" where
  "dayjs_isAfter tz a b =
     (case a of None \<Rightarrow> False
      | Some x \<Rightarrow> (case b of None \<Rightarrow> False | Some y \<Rightarrow> y < shortenToDate tz x))"

definition dayjs_isBetween :: "int \<Rightarrow> int option \<Rightarrow> int option \<Rightarrow> int option \<Rightarrow> bool" where
  "dayjs_isBetween tz x a b =
     ((\<not> dayjs_isBefore tz x a \<and> \<not> dayjs_isAfter tz x b)
      \<or> (\<not> dayjs_isAfter tz x a \<and> \<not> dayjs_isBefore tz x b))"

definition exampleHost :: "int \<Rightarrow> int \<Rightarrow> host" where
  "exampleHost tz t =
     \<lparr>LocalTZA = tz, now = t, dayjs = isoDate tz,
      isBefore_day = dayjs_isBefore tz, isBetween_day = dayjs_isBetween tz\<rparr>"

section \<open>The state of a due string with several alternatives\<close>

text \<open>
  Modelled from the spec: the class \<open>DueDate\<close>, which gives a due string with several
  alternatives its state, is not among the sources (its tests are). Spec 4.2 says: a comma
  separates alternative expressions; a task is due if any alternative is due; if an
  alternative is overdue and none is due, the result is overdue; if all alternatives are
  invalid, the result is invalid. Invalid alternatives are otherwise ignored (the spec's
  open question on mixed alternatives), so that anything else is not due.
\<close>

definition combineDueStates :: "DueState list \<Rightarrow> DueState" where
  "combineDueStates ss =
     (if Due \<in> set ss then Due
      else if Overdue \<in> set ss then Overdue
      else if list_all (\<lambda>s. s = Invalid) ss then Invalid
      else NotDue)"







section \<open>Tasks\<close>

text \<open>
  The fields of a task that the functions below read (the class \<open>TheTask\<close> itself is not
  among the sources). The field \<open>done\<close> is written \<open>task_done\<close>.
\<close>

record DueDate = DueReturn +
  raw :: string

record Count =
  current :: int
  needed :: int

record TheTask =
  lineNumber :: nat
  task_done :: bool
  due :: "DueDate option"
  overdue :: "string option"
  count :: "Count option"
  tags :: "string list"
  projects :: "string list"
  contexts :: "string list"

section \<open>Resetting the recurring tasks (resetAllRecurringTasks)\<close>

text \<open>
  The edits collected in the \<open>WorkspaceEdit\<close>, each with the number of its line:
  \<open>removeDoneSymbolEdit\<close>, \<open>removeCompletionDateWorkspaceEdit\<close>,
  \<open>addOverdueSpecialTagWorkspaceEdit\<close> with the calendar day whose \<open>YYYY-MM-DD\<close> form is
  inserted in the tag, and \<open>setCountCurrentValueEdit\<close> with the new value.
\<close>

datatype edit =
    RemoveDoneSymbol nat
  | RemoveCompletionDate nat
  | AddOverdueSpecialTag nat int
  | SetCountCurrentValue nat Count string

text \<open>\<open>a.diff(b, 'day')\<close> of dayjs: the whole days from \<open>b\<close> to \<open>a\<close>, rounded toward zero.\<close>

definition dayjs_diff_day :: "int \<Rightarrow> int \<Rightarrow> int" where
  "dayjs_diff_day a b = (a - b) sdiv ONE_DAY_IN_MS"

text \<open>
  The loop \<open>for (let i = daysSinceLastVisit; i > 0; i--)\<close>, from the value of \<open>i\<close> on. The
  class \<open>DueDate\<close> is not among the sources: \<open>isDueAt target\<close> stands for
  \<open>new DueDate(task.due.raw, {targetDate: target}).isDue\<close>. The result is the date of the
  first hit, where the loop breaks.
\<close>

fun overdueLoop :: "(int \<Rightarrow> DueState) \<Rightarrow> int \<Rightarrow> nat \<Rightarrow> int option" where
  "overdueLoop isDueAt t 0 = None"
| "overdueLoop isDueAt t (Suc k) =
     (let date = t - ONE_DAY_IN_MS * int (Suc k);
          res = isDueAt date
      in if res = Due \<or> res = Overdue then Some date else overdueLoop isDueAt t k)"

text \<open>
  The body of the loop \<open>for (const task of tasks)\<close>: the edits made for one task.
  \<open>dueDateIsDue raw target\<close> stands for \<open>new DueDate(raw, {targetDate: target}).isDue\<close>,
  \<open>t\<close> for the clock (\<open>new Date()\<close> and \<open>dayjs()\<close>).
\<close>

definition resetRecurringTask ::
  "(string \<Rightarrow> int \<Rightarrow> DueState) \<Rightarrow> int \<Rightarrow> int \<Rightarrow> int \<Rightarrow> TheTask \<Rightarrow> edit list" where
  "resetRecurringTask dueDateIsDue tz t lastVisit task =
     (case due task of
        None \<Rightarrow> []
      | Some d \<Rightarrow>
          if \<not> isRecurring d then []
          else
            (if task_done task
             then [RemoveDoneSymbol (lineNumber task), RemoveCompletionDate (lineNumber task)]
             else if (overdue task = None \<or> overdue task = Some []) \<and> \<not> isTheSameDay tz t lastVisit
             then
               (let lastVisitWithoutTime = shortenToDate tz lastVisit;
                    nowWithoutTime = shortenToDate tz t;
                    daysSinceLastVisit = dayjs_diff_day nowWithoutTime lastVisitWithoutTime
                in case overdueLoop (dueDateIsDue (raw d)) t (nat daysSinceLastVisit) of
                     None \<Rightarrow> []
                   | Some date \<Rightarrow> [AddOverdueSpecialTag (lineNumber task) (localDay tz date)])
             else [])
            @ (case count task of
                 None \<Rightarrow> []
               | Some c \<Rightarrow> [SetCountCurrentValue (lineNumber task) c ''0'']))"

definition resetAllRecurringTasks ::
  "(string \<Rightarrow> int \<Rightarrow> DueState) \<Rightarrow> int \<Rightarrow> int \<Rightarrow> int \<Rightarrow> TheTask list \<Rightarrow> edit list" where
  "resetAllRecurringTasks dueDateIsDue tz t lastVisit tasks' =
     concat (map (resetRecurringTask dueDateIsDue tz t lastVisit) tasks')"

text \<open>
  For the examples, the class \<open>DueDate\<close> evaluated with the engine of timeUtils.ts: the
  alternatives that \<open>parseDue\<close> returns when the clock of the host shows the target date,
  and their states combined.
\<close>

definition exampleDueDate :: "int \<Rightarrow> string \<Rightarrow> int \<Rightarrow> DueState" where
  "exampleDueDate tz expression targetDate =
     (case parseDue (exampleHost tz targetDate) expression of
        Inl e \<Rightarrow> Invalid
      | Inr rs \<Rightarrow> combineDueStates (map isDue rs))"

definition exampleTask :: "string \<Rightarrow> TheTask" where
  "exampleTask expression =
     \<lparr>lineNumber = 4, task_done = False,
      due = Some \<lparr>isRecurring = True, isRange = False, isDue = NotDue, raw = expression\<rparr>,
      overdue = None, count = None, tags = [], projects = [], contexts = []\<rparr>"

section \<open>Grouping tasks for the tree views (groupAndSortTreeItems)\<close>

datatype TreeItemSortType = Alphabetic | Count

record ItemForProvider =
  title :: string
  tasks :: "TheTask list"

record ParsedItems =
  tags :: "string list"
  contexts :: "string list"
  projects :: "string list"
  tagsForProvider :: "ItemForProvider list"
  projectsForProvider :: "ItemForProvider list"
  contextsForProvider :: "ItemForProvider list"

text \<open>
  What the function reads besides its argument. \<open>forEachTask\<close> is not among the sources:
  \<open>visitedTasks\<close> is the sequence of tasks of the global state \<open>$state\<close> that it passes
  to its callback, in that order. The sort types come from \<open>$config\<close>, and
  \<open>localeCompare\<close> is the host's comparison of strings (negative, zero or positive).
\<close>

record globals =
  visitedTasks :: "TheTask list"
  sortTagsView :: TreeItemSortType
  sortProjectsView :: TreeItemSortType
  sortContextsView :: TreeItemSortType
  localeCompare :: "string \<Rightarrow> string \<Rightarrow> int"

text \<open>
  A \<open>TempTitleLineNumberMap\<close> is an object literal \<open>{}\<close>: its own properties, in the order
  of their insertion. A lookup also finds the properties inherited from \<open>Object.prototype\<close>;
  they are functions or objects, hence truthy and without a \<open>push\<close>, so that
  \<open>map[key].push(task)\<close> throws a TypeError for such a key.
\<close>

type_synonym TempTitleLineNumberMap = "(string \<times> TheTask list) list"

definition objectPrototypeKeys :: "string list" where
  "objectPrototypeKeys =
     [''constructor'', ''__defineGetter__'', ''__defineSetter__'', ''hasOwnProperty'',
      ''__lookupGetter__'', ''__lookupSetter__'', ''isPrototypeOf'', ''propertyIsEnumerable'',
      ''toString'', ''valueOf'', ''__proto__'', ''toLocaleString'']"

definition pushTask :: "TheTask \<Rightarrow> string \<Rightarrow> TempTitleLineNumberMap \<Rightarrow> error + TempTitleLineNumberMap" where
  "pushTask task key m =
     (case map_of m key of
        Some ts \<Rightarrow> Inr (map (\<lambda>(k, v). if k = key then (k, v @ [task]) else (k, v)) m)
      | None \<Rightarrow>
          if key \<in> set objectPrototypeKeys then Inl (Error ''TypeError: push is not a function'')
          else Inr (m @ [(key, [task])]))"

fun foldResult :: "('a \<Rightarrow> 's \<Rightarrow> 'e + 's) \<Rightarrow> 'a list \<Rightarrow> 's \<Rightarrow> 'e + 's" where
  "foldResult f [] s = Inr s"
| "foldResult f (x # xs) s = (case f x s of Inl e \<Rightarrow> Inl e | Inr s' \<Rightarrow> foldResult f xs s')"

text \<open>The body of the callback: the three maps are the state.\<close>

definition groupTask ::
  "TheTask \<Rightarrow> TempTitleLineNumberMap \<times> TempTitleLineNumberMap \<times> TempTitleLineNumberMap
     \<Rightarrow> error + TempTitleLineNumberMap \<times> TempTitleLineNumberMap \<times> TempTitleLineNumberMap" where
  "groupTask task maps =
     (case maps of (tagMap, projectMap, contextMap) \<Rightarrow>
        (case foldResult (pushTask task) (TheTask.tags task) tagMap of
           Inl e \<Rightarrow> Inl e
         | Inr tagMap' \<Rightarrow>
             (case foldResult (pushTask task) (TheTask.projects task) projectMap of
                Inl e \<Rightarrow> Inl e
              | Inr projectMap' \<Rightarrow>
                  (case foldResult (pushTask task) (TheTask.contexts task) contextMap of
                     Inl e \<Rightarrow> Inl e
                   | Inr contextMap' \<Rightarrow> Inr (tagMap', projectMap', contextMap')))))"

text \<open>
  \<open>for (const key in map)\<close> and \<open>Object.keys(map)\<close> enumerate the keys that are array
  indices first, in ascending order, and then the other keys in the order of insertion.
\<close>

definition isArrayIndex :: "string \<Rightarrow> bool" where
  "isArrayIndex s =
     (s \<noteq> [] \<and> list_all is_digit s \<and> (s = ''0'' \<or> hd s \<noteq> CHR ''0'') \<and> Number s < 4294967295)"

definition objectKeys :: "TempTitleLineNumberMap \<Rightarrow> string list" where
  "objectKeys m =
     sort_key Number (filter isArrayIndex (map fst m))
     @ filter (\<lambda>k. \<not> isArrayIndex k) (map fst m)"

definition itemsForProvider :: "TempTitleLineNumberMap \<Rightarrow> ItemForProvider list" where
  "itemsForProvider m =
     map (\<lambda>key. \<lparr>title = key, tasks = (case map_of m key of Some ts \<Rightarrow> ts | None \<Rightarrow> [])\<rparr>)
         (objectKeys m)"

text \<open>
  \<open>items.sort(compare)\<close>: the sort is stable, and \<open>a\<close> stays before \<open>b\<close> unless
  \<open>compare(a, b) > 0\<close>.
\<close>

fun insertSorted :: "('a \<Rightarrow> 'a \<Rightarrow> int) \<Rightarrow> 'a \<Rightarrow> 'a list \<Rightarrow> 'a list" where
  "insertSorted compare a [] = [a]"
| "insertSorted compare a (b # bs) =
     (if compare a b > 0 then b # insertSorted compare a bs else a # b # bs)"

definition arraySort :: "('a \<Rightarrow> 'a \<Rightarrow> int) \<Rightarrow> 'a list \<Rightarrow> 'a list" where
  "arraySort compare items = foldr (insertSorted compare) items []"

definition sortItemsForProvider ::
  "globals \<Rightarrow> ItemForProvider list \<Rightarrow> TreeItemSortType \<Rightarrow> ItemForProvider list" where
  "sortItemsForProvider g items sortType =
     (if sortType = Alphabetic
      then arraySort (\<lambda>a b. localeCompare g (title a) (title b)) items
      else arraySort (\<lambda>a b. int (length (tasks b)) - int (length (tasks a))) items)"

text \<open>The parameter \<open>tasks\<close> of the source is the last argument; it is \<open>tasksArg\<close> here.\<close>

definition groupAndSortTreeItems :: "globals \<Rightarrow> TheTask list \<Rightarrow> error + ParsedItems" where
  "groupAndSortTreeItems g tasksArg =
     (case foldResult groupTask (visitedTasks g) ([], [], []) of
        Inl e \<Rightarrow> Inl e
      | Inr (tagMap, projectMap, contextMap) \<Rightarrow>
          Inr \<lparr>tags = objectKeys tagMap,
               contexts = objectKeys contextMap,
               projects = objectKeys projectMap,
               tagsForProvider = sortItemsForProvider g (itemsForProvider tagMap) (sortTagsView g),
               projectsForProvider =
                 sortItemsForProvider g (itemsForProvider projectMap) (sortProjectsView g),
               contextsForProvider =
                 sortItemsForProvider g (itemsForProvider contextMap) (sortContextsView g)\<rparr>)"

section \<open>Properties of the date arithmetic\<close>

lemma sdiv_mult_cancel_right:
  fixes k d :: int
  assumes "0 < d"
  shows "(k * d) sdiv d = k"
proof -
  have "\<bar>k * d\<bar> div \<bar>d\<bar> = \<bar>k\<bar>"
    using assms by (simp add: abs_mult)
  moreover have "sgn (k * d) * sgn d = sgn k"
    using assms by (simp add: sgn_mult)
  ultimately show ?thesis
    by (simp add: signed_divide_int_def mult_sgn_abs)
qed

lemma localDay_shortenToDate [simp]:
  "localDay tz (shortenToDate tz t) = localDay tz t"
  by (simp add: localDay_def shortenToDate_def ONE_DAY_IN_MS_def)

lemma localDay_newDate:
  "localDay tz (newDate tz y m d) =
     MakeDay (if 0 \<le> y \<and> y \<le> 99 then 1900 + y else y) m d"
  by (simp add: localDay_def newDate_def ONE_DAY_IN_MS_def Let_def)

lemma shortenToDate_newDate:
  "shortenToDate tz (newDate tz y m d) = newDate tz y m d"
  by (simp add: shortenToDate_def localDay_newDate) (simp add: newDate_def Let_def)

lemma calcDiffInDays_shortened:
  "calcDiffInDays (shortenToDate tz a) (shortenToDate tz b) = localDay tz b - localDay tz a"
proof -
  have h: "shortenToDate tz b - shortenToDate tz a = (localDay tz b - localDay tz a) * ONE_DAY_IN_MS"
    by (simp add: shortenToDate_def algebra_simps)
  show ?thesis
    unfolding calcDiffInDays_def h
    by (rule sdiv_mult_cancel_right) (simp add: ONE_DAY_IN_MS_def)
qed

lemma newDate_less_iff:
  "t < newDate tz y m d \<longleftrightarrow> localDay tz t < localDay tz (newDate tz y m d)"
proof -
  define k where "k = MakeDay (if 0 \<le> y \<and> y \<le> 99 then 1900 + y else y) m d"
  have n: "newDate tz y m d = k * 86400000 - tz"
    by (simp add: newDate_def k_def Let_def ONE_DAY_IN_MS_def)
  have "t < k * 86400000 - tz \<longleftrightarrow> (t + tz) div 86400000 < k"
    by arith
  moreover have "localDay tz (newDate tz y m d) = k"
    by (simp add: localDay_newDate k_def)
  ultimately show ?thesis
    by (simp only: n) (simp add: localDay_def ONE_DAY_IN_MS_def)
qed

section \<open>The zone of fixed offset\<close>

lemma localDay_zone_fixed: "localDay_zone (fixedZone tz) t = localDay tz t"
  by (simp add: localDay_zone_def LocalTime_def fixedZone_def localDay_def)


lemma isTheSameDay_zone_fixed: "isTheSameDay_zone (fixedZone tz) a b = isTheSameDay tz a b"
  by (simp add: isTheSameDay_zone_def isTheSameDay_def localDay_zone_fixed)

lemma newDate_zone_fixed: "newDate_zone (fixedZone tz) y m d = newDate tz y m d"
  by (simp add: newDate_zone_def newDate_def UTC_def fixedZone_def Let_def)


section \<open>The host of the examples\<close>

lemma exampleHost_answers:
  "dayjs (exampleHost tz t) = isoDate tz" "now (exampleHost tz t) = t" "LocalTZA (exampleHost tz t) = tz"
  "isBefore_day (exampleHost tz t) None c = False"
  "isBefore_day (exampleHost tz t) (Some a) (Some b) = (localDay tz a < localDay tz b)"
  "isBetween_day (exampleHost tz t) (Some x) (Some a) (Some b)
     = ((localDay tz a \<le> localDay tz x \<and> localDay tz x \<le> localDay tz b)
        \<or> (localDay tz b \<le> localDay tz x \<and> localDay tz x \<le> localDay tz a))"
proof -
  have lt: "shortenToDate tz a + ONE_DAY_IN_MS - 1 < b \<longleftrightarrow> localDay tz a < localDay tz b" for a b
    unfolding shortenToDate_def localDay_def ONE_DAY_IN_MS_def by arith
  have gt: "b < shortenToDate tz a \<longleftrightarrow> localDay tz b < localDay tz a" for a b
    unfolding shortenToDate_def localDay_def ONE_DAY_IN_MS_def by arith
  show "isBefore_day (exampleHost tz t) (Some a) (Some b) = (localDay tz a < localDay tz b)"
    by (simp add: exampleHost_def dayjs_isBefore_def lt)
  show "isBetween_day (exampleHost tz t) (Some x) (Some a) (Some b)
     = ((localDay tz a \<le> localDay tz x \<and> localDay tz x \<le> localDay tz b)
        \<or> (localDay tz b \<le> localDay tz x \<and> localDay tz x \<le> localDay tz a))"
    by (auto simp: exampleHost_def dayjs_isBetween_def dayjs_isBefore_def dayjs_isAfter_def lt gt)
qed (simp_all add: exampleHost_def dayjs_isBefore_def)

section \<open>Whole-day differences\<close>











section \<open>The failure of isDueWithDate\<close>

text \<open>
  C8: \<open>isDueWithDate\<close> throws exactly when the anchor \<open>dueDateStart\<close> is undefined; with
  an anchor it returns a due state, whatever the string \<open>dueDate\<close> is.
\<close>

theorem C8_isDueWithDate_throws_iff_no_anchor:
  "(\<exists>e. isDueWithDate tz dueDate dueDateStart date = Inl e) = (dueDateStart = None)
   \<and> (\<exists>s. isDueWithDate tz dueDate (Some start) date = Inr s)"
  by (auto simp: isDueWithDate_def Let_def split: option.splits prod.splits)

section \<open>Splitting a due string into alternatives\<close>

lemma split_not_Nil [simp]: "split sep s \<noteq> []"
  by (induction sep s rule: split.induct) (auto split: list.splits)

lemma split_comma_Cons:
  "split '','' (c # cs) =
     (if c = CHR '','' then [] # split '','' cs
      else (case split '','' cs of [] \<Rightarrow> [[c]] | s # ss \<Rightarrow> (c # s) # ss))"
  by (simp add: prefix_def)

lemma split_comma_append:
  "split '','' (a @ CHR '','' # b) = split '','' a @ split '','' b"
proof (induction a)
  case Nil
  show ?case by (simp add: split_comma_Cons del: split.simps(2))
next
  case (Cons c a)
  obtain s ss where s: "split '','' a = s # ss"
    by (cases "split '','' a") simp_all
  show ?case
    using Cons s by (simp add: split_comma_Cons del: split.simps(2))
qed

lemma parseDue_comma:
  "parseDue h (a @ CHR '','' # b)
     = mapResult (parseDueDate h)
         (filter (\<lambda>d. length d \<noteq> 0) (split '','' a) @ filter (\<lambda>d. length d \<noteq> 0) (split '','' b))"
  by (simp add: parseDue_def split_comma_append del: split.simps(2))

text \<open>
  C10: \<open>parseDue\<close> drops the empty segments of the split at commas. A trailing, a leading
  or a doubled comma changes nothing, \<open>parseDue('mon,')\<close> is \<open>parseDue('mon')\<close>, the empty
  string gives the empty list, and no segment that is parsed is empty.
\<close>

theorem C10_parseDue_discards_empty_alternatives:
  "parseDue h (s @ '','') = parseDue h s
   \<and> parseDue h ('','' @ s) = parseDue h s
   \<and> parseDue h (a @ '',,'' @ b) = parseDue h (a @ '','' @ b)
   \<and> parseDue h ''mon,'' = parseDue h ''mon''
   \<and> parseDue h '''' = Inr []
   \<and> [] \<notin> set (filter (\<lambda>d. length d \<noteq> 0) (split '','' s))"
proof -
  have t: "parseDue h (s @ '','') = parseDue h s" for s
    using parseDue_comma [of h s "[]"] by (simp add: parseDue_def)
  have l: "parseDue h ('','' @ s) = parseDue h s" for s
    using parseDue_comma [of h "[]" s] by (simp add: parseDue_def)
  have "parseDue h (a @ CHR '','' # (CHR '','' # b)) = parseDue h (a @ CHR '','' # b)"
    unfolding parseDue_comma using parseDue_comma [of h "[]" b] by (simp add: parseDue_def)
  then have d: "parseDue h (a @ '',,'' @ b) = parseDue h (a @ '','' @ b)"
    by simp
  have m: "parseDue h ''mon,'' = parseDue h ''mon''"
    using t [of "''mon''"] by simp
  have e: "parseDue h '''' = Inr []"
    by (simp add: parseDue_def)
  show ?thesis
    using t l d m e by simp
qed

section \<open>Strings that are no date\<close>

lemma split_dots_no_sublist:
  "\<not> sublist ''..'' s \<Longrightarrow> split ''..'' s = [s]"
proof (induction s)
  case Nil
  show ?case by simp
next
  case (Cons c cs)
  have "sublist ''..'' (c # cs) \<longleftrightarrow> prefix ''..'' (c # cs) \<or> sublist ''..'' cs"
    by (rule sublist_Cons_right)
  with Cons.prems have np: "\<not> prefix ''..'' (c # cs)" and ns: "\<not> sublist ''..'' cs"
    by (simp_all only: de_Morgan_disj simp_thms)
  from ns have "split ''..'' cs = [cs]"
    by (rule Cons.IH)
  with np show ?case
    by (simp only: split.simps list.case simp_thms if_False)
qed

lemma split_no_dot:
  "CHR ''.'' \<notin> set s \<Longrightarrow> split ''..'' s = [s]"
  by (induction s) auto

lemma dueWithDateRegexp_no_digit:
  "list_all (\<lambda>c. \<not> is_digit c) s \<Longrightarrow> regexp_exec dueWithDateRegexp s = None"
proof (induction s)
  case Nil
  show ?case by (simp add: dueWithDateRegexp_def)
next
  case (Cons c cs)
  have "dueWithDateRegexp (c # cs) = None"
    using Cons.prems by (cases cs) (auto simp: dueWithDateRegexp_def)
  then show ?case
    using Cons by simp
qed

lemma dueWithDateRegexp_short:
  "length s < 10 \<Longrightarrow> regexp_exec dueWithDateRegexp s = None"
  by (induction s) (simp_all add: dueWithDateRegexp_def)

lemma parseDueDate_no_pattern:
  assumes "expr \<noteq> ''today''" and "split ''..'' expr = [expr]"
    and "regexp_exec dueWithDateRegexp expr = None"
  shows "parseDueDate h expr = Inr \<lparr>isRecurring = True, isRange = False, isDue = isDueToday h expr\<rparr>"
  using assms by (simp add: parseDueDate_def)

lemma parseDueDate_plain_word:
  assumes "expr \<noteq> ''today''" and "CHR ''.'' \<notin> set expr"
    and "list_all (\<lambda>c. \<not> is_digit c) expr"
  shows "parseDueDate h expr = Inr \<lparr>isRecurring = True, isRange = False, isDue = isDueToday h expr\<rparr>"
  using assms by (intro parseDueDate_no_pattern split_no_dot dueWithDateRegexp_no_digit)

lemma parseDueDate_short:
  assumes "expr \<noteq> ''today''" and "CHR ''.'' \<notin> set expr" and "length expr < 10"
  shows "parseDueDate h expr = Inr \<lparr>isRecurring = True, isRange = False, isDue = isDueToday h expr\<rparr>"
  using assms by (intro parseDueDate_no_pattern split_no_dot dueWithDateRegexp_short)

lemma isDueWithDate_anchor:
  "isDueWithDate tz s (Some a) t = Inr Due \<or> isDueWithDate tz s (Some a) t = Inr NotDue"
  by (simp add: isDueWithDate_def Let_def split: option.splits prod.splits)

lemma isDueExactDate_not_Invalid: "isDueExactDate h d \<noteq> Invalid"
  by (simp add: isDueExactDate_def Let_def)

lemma isDueToday_not_Invalid: "isDueToday h d \<noteq> Invalid"
  by (simp add: isDueToday_def Let_def)

lemma isDueBetween_not_Invalid: "isDue (isDueBetween h a b) \<noteq> Invalid"
  by (simp add: isDueBetween_def Let_def)

lemma parseDueDate_not_Invalid:
  "\<exists>r. parseDueDate h expr = Inr r \<and> isDue r \<noteq> Invalid"
proof -
  have w: "\<exists>r. (case isDueWithDate tz s (Some a) t of Inl e \<Rightarrow> Inl e
                 | Inr s \<Rightarrow> Inr \<lparr>isRecurring = True, isRange = False, isDue = s\<rparr>) = Inr r
               \<and> isDue r \<noteq> Invalid" for tz s a t
    using isDueWithDate_anchor [of tz s a t] by auto
  show ?thesis
    unfolding parseDueDate_def Let_def
    by (auto simp: isDueExactDate_not_Invalid isDueToday_not_Invalid isDueBetween_not_Invalid w
        split: option.splits prod.splits)
qed

lemma isDueToday_weekday:
  "isDueToday h ''Sun'' = (if getDay (LocalTZA h) (now h) = 0 then Due else NotDue)"
  "isDueToday h ''Mon'' = (if getDay (LocalTZA h) (now h) = 1 then Due else NotDue)"
  "isDueToday h ''Tue'' = (if getDay (LocalTZA h) (now h) = 2 then Due else NotDue)"
  "isDueToday h ''Wed'' = (if getDay (LocalTZA h) (now h) = 3 then Due else NotDue)"
  "isDueToday h ''Thu'' = (if getDay (LocalTZA h) (now h) = 4 then Due else NotDue)"
  "isDueToday h ''Fri'' = (if getDay (LocalTZA h) (now h) = 5 then Due else NotDue)"
  "isDueToday h ''Sat'' = (if getDay (LocalTZA h) (now h) = 6 then Due else NotDue)"
  by (simp_all add: isDueToday_def)

lemma isDueToday_other:
  "expr \<notin> set [''ed'', ''Sun'', ''Mon'', ''Tue'', ''Wed'', ''Thu'', ''Fri'', ''Sat'']
     \<Longrightarrow> isDueToday h expr = NotDue"
  by (simp add: isDueToday_def)

lemma localDay_shiftDays: "localDay tz (shiftDays t n) = localDay tz t + n"
proof -
  have "(t + 86400000 * n + tz) div 86400000 = (t + tz) div 86400000 + n"
    by arith
  then show ?thesis
    by (simp add: localDay_def shiftDays_def ONE_DAY_IN_MS_def)
qed

lemma getDay_shiftDays_week: "getDay tz (shiftDays t (7 * k)) = getDay tz t"
  by (simp add: getDay_def localDay_shiftDays) presburger

lemma isDueExactDate_newDate:
  "isDueExactDate h (newDate (LocalTZA h) y m d) =
     (if localDay (LocalTZA h) (now h) < localDay (LocalTZA h) (newDate (LocalTZA h) y m d)
      then NotDue
      else if localDay (LocalTZA h) (now h) = localDay (LocalTZA h) (newDate (LocalTZA h) y m d)
      then Due else Overdue)"
  unfolding isDueExactDate_def Let_def calcDiffInDays_shortened
  using newDate_less_iff [of "now h" "LocalTZA h" y m d] by auto

lemma fixture_2020:
  "parseDueDate h ''2020'' = Inr \<lparr>isRecurring = True, isRange = False, isDue = NotDue\<rparr>"
  by (simp add: parseDueDate_short isDueToday_other)

lemma fixture_2020_05_2:
  "parseDueDate h ''2020-05-2'' = Inr \<lparr>isRecurring = True, isRange = False, isDue = NotDue\<rparr>"
  by (simp add: parseDueDate_short isDueToday_other)

lemma fixture_2020_07_31_e14:
  "parseDueDate h ''2020-07-31|e14'' =
     Inr \<lparr>isRecurring = False, isRange = False,
          isDue = isDueExactDate h (newDate (LocalTZA h) 2020 6 31)\<rparr>"
  by (simp add: parseDueDate_def dueWithDateRegexp_def optionalAlgorithm_def is_digit_def Number_def)

lemma fixture_2020_07_35:
  "parseDueDate h ''2020-07-35'' =
     Inr \<lparr>isRecurring = False, isRange = False,
          isDue = isDueExactDate h (newDate (LocalTZA h) 2020 6 35)\<rparr>"
  by (simp add: parseDueDate_def dueWithDateRegexp_def optionalAlgorithm_def is_digit_def Number_def)

lemma MakeDay_values:
  "MakeDay 2020 6 31 = 18474" "MakeDay 2020 6 35 = 18478" "MakeDay 2020 7 4 = 18478"
  "MakeDay 2018 0 1 = 17532" "MakeDay 2018 0 2 = 17533" "MakeDay 2018 0 3 = 17534"
  "MakeDay 2018 0 4 = 17535" "MakeDay 2018 0 7 = 17538" "MakeDay 2017 11 30 = 17530"
  by (simp_all add: MakeDay_def DayFromYear_def InLeapYear_def monthStart_def)

section \<open>Weekday names\<close>

text \<open>
  C2 (as stated, refuted): 2018-01-01 was a Monday, and on that day neither \<open>'monday'\<close>
  nor \<open>'mon'\<close> is due: \<open>isDueToday\<close> compares with the capitalised abbreviations only.
\<close>

theorem C2_weekday_spellings_counterexample:
  "getDay 0 (newDate 0 2018 0 1) = 1
   \<and> parseDueDate (exampleHost 0 (newDate 0 2018 0 1)) ''monday''
       = Inr \<lparr>isRecurring = True, isRange = False, isDue = NotDue\<rparr>
   \<and> parseDueDate (exampleHost 0 (newDate 0 2018 0 1)) ''mon''
       = Inr \<lparr>isRecurring = True, isRange = False, isDue = NotDue\<rparr>"
  by (simp add: parseDueDate_plain_word isDueToday_other is_digit_def
      getDay_def localDay_newDate MakeDay_def DayFromYear_def InLeapYear_def monthStart_def)

text \<open>
  C2 (amended): each of the seven abbreviations \<open>Sun\<close>, \<open>Mon\<close>, \<open>Tue\<close>, \<open>Wed\<close>, \<open>Thu\<close>,
  \<open>Fri\<close>, \<open>Sat\<close>, written exactly so, is classified recurring, and is Due if and only if the
  weekday of the target date (\<open>getDay\<close>, 0 for Sunday) is the named one, otherwise NotDue;
  the weekday repeats every seven days, whatever the year. The full names and the other
  letter cases are classified recurring too, and are NotDue on every day.
\<close>

theorem C2_weekday_abbreviations:
  "parseDueDate h ''Sun'' = Inr \<lparr>isRecurring = True, isRange = False,
       isDue = (if getDay (LocalTZA h) (now h) = 0 then Due else NotDue)\<rparr>
   \<and> parseDueDate h ''Mon'' = Inr \<lparr>isRecurring = True, isRange = False,
       isDue = (if getDay (LocalTZA h) (now h) = 1 then Due else NotDue)\<rparr>
   \<and> parseDueDate h ''Tue'' = Inr \<lparr>isRecurring = True, isRange = False,
       isDue = (if getDay (LocalTZA h) (now h) = 2 then Due else NotDue)\<rparr>
   \<and> parseDueDate h ''Wed'' = Inr \<lparr>isRecurring = True, isRange = False,
       isDue = (if getDay (LocalTZA h) (now h) = 3 then Due else NotDue)\<rparr>
   \<and> parseDueDate h ''Thu'' = Inr \<lparr>isRecurring = True, isRange = False,
       isDue = (if getDay (LocalTZA h) (now h) = 4 then Due else NotDue)\<rparr>
   \<and> parseDueDate h ''Fri'' = Inr \<lparr>isRecurring = True, isRange = False,
       isDue = (if getDay (LocalTZA h) (now h) = 5 then Due else NotDue)\<rparr>
   \<and> parseDueDate h ''Sat'' = Inr \<lparr>isRecurring = True, isRange = False,
       isDue = (if getDay (LocalTZA h) (now h) = 6 then Due else NotDue)\<rparr>
   \<and> getDay tz (shiftDays t (7 * k)) = getDay tz t
   \<and> list_all (\<lambda>name. parseDueDate h name = Inr \<lparr>isRecurring = True, isRange = False, isDue = NotDue\<rparr>)
        [''sun'', ''mon'', ''tue'', ''wed'', ''thu'', ''fri'', ''sat'',
         ''SUN'', ''MON'', ''TUE'', ''WED'', ''THU'', ''FRI'', ''SAT'',
         ''sunday'', ''monday'', ''tuesday'', ''wednesday'', ''thursday'', ''friday'', ''saturday'',
         ''Sunday'', ''Monday'', ''Tuesday'', ''Wednesday'', ''Thursday'', ''Friday'', ''Saturday'',
         ''SUNDAY'', ''MONDAY'', ''TUESDAY'', ''WEDNESDAY'', ''THURSDAY'', ''FRIDAY'', ''SATURDAY'']"
proof -
  have abbr: "parseDueDate h name = Inr \<lparr>isRecurring = True, isRange = False, isDue = isDueToday h name\<rparr>"
    if "name \<in> set [''Sun'', ''Mon'', ''Tue'', ''Wed'', ''Thu'', ''Fri'', ''Sat'']" for name
    using that by (intro parseDueDate_plain_word) (auto simp: is_digit_def)
  have other: "parseDueDate h name = Inr \<lparr>isRecurring = True, isRange = False, isDue = NotDue\<rparr>"
    if "name \<noteq> ''today''" "CHR ''.'' \<notin> set name" "list_all (\<lambda>c. \<not> is_digit c) name"
       "name \<notin> set [''ed'', ''Sun'', ''Mon'', ''Tue'', ''Wed'', ''Thu'', ''Fri'', ''Sat'']" for name
    using that by (simp add: parseDueDate_plain_word isDueToday_other)
  show ?thesis
    by (simp add: abbr isDueToday_weekday getDay_shiftDays_week) (simp add: other is_digit_def)
qed

section \<open>Strings that match no branch of the grammar\<close>

text \<open>
  C1 (as stated, refuted): \<open>parseDueDate\<close> has no invalid state. The fixture \<open>'2020'\<close>
  is classified recurring and not due, and \<open>'2020-07-35'\<close> is accepted as a date: it is due
  on 2020-08-04, the day \<open>new Date(2020, 6, 35)\<close> denotes.
\<close>

theorem C1_unrecognised_counterexample:
  "parseDueDate (exampleHost 0 (newDate 0 2018 0 1)) ''2020''
     = Inr \<lparr>isRecurring = True, isRange = False, isDue = NotDue\<rparr>
   \<and> parseDueDate (exampleHost 0 (newDate 0 2020 7 4)) ''2020-07-35''
     = Inr \<lparr>isRecurring = False, isRange = False, isDue = Due\<rparr>"
  by (simp add: fixture_2020 fixture_2020_07_35 isDueExactDate_newDate)
     (simp add: exampleHost_def localDay_newDate MakeDay_values)

text \<open>
  C1 (amended): \<open>parseDueDate\<close> returns for every string, and never the state Invalid. A
  string that matches no branch it knows (not \<open>today\<close>, no \<open>..\<close> in it, no match of
  \<open>dueWithDateRegexp\<close> anywhere in it, not \<open>ed\<close> and not one of \<open>Sun\<close> ... \<open>Sat\<close>) is
  classified recurring and NotDue; so are \<open>'2020'\<close> and \<open>'2020-05-2'\<close>. An exact date is
  not validated: \<open>'2020-07-31|e14'\<close> is read as the date 2020-07-31, the suffix ignored, and
  \<open>'2020-07-35'\<close> as 2020-08-04 (\<open>MakeDay 2020 7 4\<close>; months count from 0), each not
  recurring and NotDue before that day, Due on it and Overdue after it.
\<close>

theorem C1_parseDueDate_never_Invalid:
  "(\<exists>r. parseDueDate h expr = Inr r \<and> isDue r \<noteq> Invalid)
   \<and> (expr \<noteq> ''today'' \<and> \<not> sublist ''..'' expr \<and> regexp_exec dueWithDateRegexp expr = None
        \<and> expr \<notin> set [''ed'', ''Sun'', ''Mon'', ''Tue'', ''Wed'', ''Thu'', ''Fri'', ''Sat'']
      \<longrightarrow> parseDueDate h expr = Inr \<lparr>isRecurring = True, isRange = False, isDue = NotDue\<rparr>)
   \<and> parseDueDate h ''2020'' = Inr \<lparr>isRecurring = True, isRange = False, isDue = NotDue\<rparr>
   \<and> parseDueDate h ''2020-05-2'' = Inr \<lparr>isRecurring = True, isRange = False, isDue = NotDue\<rparr>
   \<and> parseDueDate h ''2020-07-31|e14'' =
       Inr \<lparr>isRecurring = False, isRange = False,
            isDue = (if localDay (LocalTZA h) (now h) < MakeDay 2020 6 31 then NotDue
                     else if localDay (LocalTZA h) (now h) = MakeDay 2020 6 31 then Due
                     else Overdue)\<rparr>
   \<and> parseDueDate h ''2020-07-35'' =
       Inr \<lparr>isRecurring = False, isRange = False,
            isDue = (if localDay (LocalTZA h) (now h) < MakeDay 2020 7 4 then NotDue
                     else if localDay (LocalTZA h) (now h) = MakeDay 2020 7 4 then Due
                     else Overdue)\<rparr>"
proof -
  have a: "\<exists>r. parseDueDate h expr = Inr r \<and> isDue r \<noteq> Invalid"
    by (rule parseDueDate_not_Invalid)
  have b: "parseDueDate h expr = Inr \<lparr>isRecurring = True, isRange = False, isDue = NotDue\<rparr>"
    if "expr \<noteq> ''today''" "\<not> sublist ''..'' expr" "regexp_exec dueWithDateRegexp expr = None"
       "expr \<notin> set [''ed'', ''Sun'', ''Mon'', ''Tue'', ''Wed'', ''Thu'', ''Fri'', ''Sat'']"
    using parseDueDate_no_pattern [OF that(1) split_dots_no_sublist [OF that(2)] that(3), of h]
      isDueToday_other [OF that(4), of h]
    by simp
  have c: "parseDueDate h ''2020-07-31|e14'' =
       Inr \<lparr>isRecurring = False, isRange = False,
            isDue = (if localDay (LocalTZA h) (now h) < MakeDay 2020 6 31 then NotDue
                     else if localDay (LocalTZA h) (now h) = MakeDay 2020 6 31 then Due
                     else Overdue)\<rparr>"
    by (simp only: fixture_2020_07_31_e14 isDueExactDate_newDate localDay_newDate) simp
  have d: "parseDueDate h ''2020-07-35'' =
       Inr \<lparr>isRecurring = False, isRange = False,
            isDue = (if localDay (LocalTZA h) (now h) < MakeDay 2020 7 4 then NotDue
                     else if localDay (LocalTZA h) (now h) = MakeDay 2020 7 4 then Due
                     else Overdue)\<rparr>"
    by (simp only: fixture_2020_07_35 isDueExactDate_newDate localDay_newDate)
       (simp add: MakeDay_values)
  show ?thesis
    using a b c d fixture_2020 [of h] fixture_2020_05_2 [of h] by blast
qed

text \<open>Witness for C1: \<open>'monday'\<close> matches no branch, and is recurring and not due.\<close>

theorem C1_parseDueDate_never_Invalid_witness:
  "''monday'' \<noteq> ''today'' \<and> \<not> sublist ''..'' ''monday''
   \<and> regexp_exec dueWithDateRegexp ''monday'' = None
   \<and> ''monday'' \<notin> set [''ed'', ''Sun'', ''Mon'', ''Tue'', ''Wed'', ''Thu'', ''Fri'', ''Sat'']
   \<and> parseDueDate (exampleHost 0 (newDate 0 2018 0 1)) ''monday''
       = Inr \<lparr>isRecurring = True, isRange = False, isDue = NotDue\<rparr>"
proof -
  have 1: "''monday'' \<noteq> ''today''" by simp
  have 2: "\<not> sublist ''..'' ''monday''" by (simp add: sublist_Cons_right)
  have 3: "regexp_exec dueWithDateRegexp ''monday'' = None" by (rule dueWithDateRegexp_short) simp
  have 4: "''monday'' \<notin> set [''ed'', ''Sun'', ''Mon'', ''Tue'', ''Wed'', ''Thu'', ''Fri'', ''Sat'']"
    by simp
  show ?thesis
    using C1_parseDueDate_never_Invalid [of "exampleHost 0 (newDate 0 2018 0 1)" "''monday''"] 1 2 3 4
    by blast
qed

section \<open>Dates with an algorithm\<close>













lemma dueWithDateRegexp_dated:
  assumes "length ys = 4" "list_all is_digit ys" "length ms = 2" "list_all is_digit ms"
    and "length ds = 2" "list_all is_digit ds"
  shows "dueWithDateRegexp (ys @ CHR ''-'' # ms @ CHR ''-'' # ds @ rest)
           = Some (ys, ms, ds, optionalAlgorithm rest)"
  using assms by (simp add: dueWithDateRegexp_def nth_append)




lemma Number_values:
  "Number ''2018'' = 2018" "Number ''2020'' = 2020" "Number ''01'' = 1" "Number ''07'' = 7"
  "Number ''31'' = 31" "Number ''35'' = 35" "Number ''2'' = 2" "Number ''04'' = 4"
  by (simp_all add: Number_def)




section \<open>Date ranges\<close>

lemma split_range:
  assumes "CHR ''.'' \<notin> set d1" and "CHR ''.'' \<notin> set d2"
  shows "split ''..'' (d1 @ CHR ''.'' # CHR ''.'' # d2) = [d1, d2]"
  using assms by (induction d1) (auto simp: split_no_dot)

lemma parseDueDate_range:
  assumes "CHR ''.'' \<notin> set d1" and "CHR ''.'' \<notin> set d2"
  shows "parseDueDate h (d1 @ CHR ''.'' # CHR ''.'' # d2) = Inr (isDueBetween h d1 d2)"
proof -
  have "CHR ''.'' \<notin> set ''today''"
    by simp
  then have "d1 @ CHR ''.'' # CHR ''.'' # d2 \<noteq> ''today''"
    by (metis in_set_conv_decomp)
  then show ?thesis
    unfolding parseDueDate_def split_range [OF assms] by simp
qed

lemma isoDate_values:
  "isoDate tz ''2018-01-01'' = Some (newDate tz 2018 0 1)"
  "isoDate tz ''2018-01-04'' = Some (newDate tz 2018 0 4)"
  "isoDate tz ''foo'' = None" "isoDate tz ''bar'' = None"
  using dueWithDateRegexp_dated [of "''2018''" "''01''" "''01''" "[]"]
        dueWithDateRegexp_dated [of "''2018''" "''01''" "''04''" "[]"]
  by (simp_all add: isoDate_def is_digit_def Number_values) (simp_all add: dueWithDateRegexp_def)

text \<open>
  C5 (as stated, refuted): with the malformed endpoints \<open>foo\<close> and \<open>bar\<close>, which the
  library reads as invalid dates, the result is a range whose state is Due or NotDue,
  according to what the library's comparisons answer on invalid dates, and not Invalid.
  And the range \<open>2018-01-04..2018-01-01\<close>, whose endpoints are in descending order, is Due
  on 2018-01-03, a day that is not within \<open>[date1, date2]\<close>: \<open>isBetween\<close> takes its two
  bounds in either order.
\<close>

theorem C5_malformed_and_reversed_counterexample:
  "(case parseDueDate (exampleHost 0 (newDate 0 2018 0 3)) ''foo..bar'' of
      Inl e \<Rightarrow> False
    | Inr r \<Rightarrow> \<not> isRecurring r \<and> isRange r \<and> isDue r \<in> {Due, NotDue})
   \<and> dayjs (exampleHost 0 (newDate 0 2018 0 3)) ''foo'' = None
   \<and> dayjs (exampleHost 0 (newDate 0 2018 0 3)) ''bar'' = None
   \<and> parseDueDate (exampleHost 0 (newDate 0 2018 0 3)) ''2018-01-04..2018-01-01''
       = Inr \<lparr>isRecurring = False, isRange = True, isDue = Due\<rparr>"
proof -
  have "parseDueDate (exampleHost 0 (newDate 0 2018 0 3)) ''foo..bar''
          = Inr (isDueBetween (exampleHost 0 (newDate 0 2018 0 3)) ''foo'' ''bar'')"
    using parseDueDate_range [of "''foo''" "''bar''"] by simp
  moreover have "parseDueDate (exampleHost 0 (newDate 0 2018 0 3)) ''2018-01-04..2018-01-01''
          = Inr (isDueBetween (exampleHost 0 (newDate 0 2018 0 3)) ''2018-01-04'' ''2018-01-01'')"
    using parseDueDate_range [of "''2018-01-04''" "''2018-01-01''"] by simp
  ultimately show ?thesis
    by (simp add: isDueBetween_def Let_def exampleHost_answers isoDate_values localDay_newDate
        MakeDay_values)
qed

text \<open>
  C5 (amended): for every expression \<open><date1>..<date2>\<close> (no dot in either part) the
  result is not recurring and has \<open>isRange\<close>; its state is Overdue when the library finds
  both endpoints before the current day, otherwise Due when the library finds the current
  day between them (bounds included), otherwise NotDue, and never Invalid. Where the
  library reads both endpoints as dates and answers at the granularity of a day, with the
  bounds of \<open>isBetween\<close> in either order, that is: Overdue if both endpoints are strictly
  before the current day, otherwise Due if the current day is between the two endpoints,
  bounds included, whichever of them is the earlier, otherwise NotDue. Where an endpoint is
  malformed, so that the library reads it as an invalid date, and \<open>isBefore\<close> answers false
  on an invalid date, the state is Due or NotDue, as \<open>isBetween\<close> answers.
\<close>

theorem C5_range:
  assumes "CHR ''.'' \<notin> set d1" and "CHR ''.'' \<notin> set d2"
  shows "\<exists>s. parseDueDate h (d1 @ ''..'' @ d2) = Inr \<lparr>isRecurring = False, isRange = True, isDue = s\<rparr>
     \<and> s \<noteq> Invalid
     \<and> s = (if isBefore_day h (dayjs h d1) (Some (now h)) \<and> isBefore_day h (dayjs h d2) (Some (now h))
            then Overdue
            else if isBetween_day h (Some (now h)) (dayjs h d1) (dayjs h d2) then Due else NotDue)
     \<and> (\<forall>a b. dayjs h d1 = Some a \<and> dayjs h d2 = Some b
            \<and> isBefore_day h (Some a) (Some (now h))
                = (localDay (LocalTZA h) a < localDay (LocalTZA h) (now h))
            \<and> isBefore_day h (Some b) (Some (now h))
                = (localDay (LocalTZA h) b < localDay (LocalTZA h) (now h))
            \<and> isBetween_day h (Some (now h)) (Some a) (Some b)
                = ((localDay (LocalTZA h) a \<le> localDay (LocalTZA h) (now h)
                    \<and> localDay (LocalTZA h) (now h) \<le> localDay (LocalTZA h) b)
                   \<or> (localDay (LocalTZA h) b \<le> localDay (LocalTZA h) (now h)
                    \<and> localDay (LocalTZA h) (now h) \<le> localDay (LocalTZA h) a))
          \<longrightarrow> s = (if localDay (LocalTZA h) a < localDay (LocalTZA h) (now h)
                       \<and> localDay (LocalTZA h) b < localDay (LocalTZA h) (now h)
                    then Overdue
                    else if (localDay (LocalTZA h) a \<le> localDay (LocalTZA h) (now h)
                             \<and> localDay (LocalTZA h) (now h) \<le> localDay (LocalTZA h) b)
                          \<or> (localDay (LocalTZA h) b \<le> localDay (LocalTZA h) (now h)
                             \<and> localDay (LocalTZA h) (now h) \<le> localDay (LocalTZA h) a)
                    then Due else NotDue))
     \<and> ((dayjs h d1 = None \<or> dayjs h d2 = None) \<and> \<not> isBefore_day h None (Some (now h))
          \<longrightarrow> s = (if isBetween_day h (Some (now h)) (dayjs h d1) (dayjs h d2) then Due else NotDue))"
proof -
  have "parseDueDate h (d1 @ ''..'' @ d2) = Inr (isDueBetween h d1 d2)"
    using parseDueDate_range [OF assms] by simp
  then show ?thesis
    by (cases "dayjs h d1"; cases "dayjs h d2") (auto simp: isDueBetween_def Let_def)
qed

text \<open>
  Witness for C5: the range from 2018-01-01 to 2018-01-04 is Due on 2018-01-03, Overdue on
  2018-01-07 and NotDue on 2017-12-30; the range from 2018-01-04 to 2018-01-01 is Due on
  2018-01-03; and with the malformed endpoint \<open>foo\<close> the state is Due or NotDue.
\<close>

theorem C5_range_witness:
  "CHR ''.'' \<notin> set ''2018-01-01'' \<and> CHR ''.'' \<notin> set ''2018-01-04'' \<and> CHR ''.'' \<notin> set ''foo''
   \<and> parseDueDate (exampleHost 0 (newDate 0 2018 0 3)) ''2018-01-01..2018-01-04''
       = Inr \<lparr>isRecurring = False, isRange = True, isDue = Due\<rparr>
   \<and> parseDueDate (exampleHost 0 (newDate 0 2018 0 7)) ''2018-01-01..2018-01-04''
       = Inr \<lparr>isRecurring = False, isRange = True, isDue = Overdue\<rparr>
   \<and> parseDueDate (exampleHost 0 (newDate 0 2017 11 30)) ''2018-01-01..2018-01-04''
       = Inr \<lparr>isRecurring = False, isRange = True, isDue = NotDue\<rparr>
   \<and> parseDueDate (exampleHost 0 (newDate 0 2018 0 3)) ''2018-01-04..2018-01-01''
       = Inr \<lparr>isRecurring = False, isRange = True, isDue = Due\<rparr>
   \<and> dayjs (exampleHost 0 (newDate 0 2018 0 3)) ''foo'' = None
   \<and> \<not> isBefore_day (exampleHost 0 (newDate 0 2018 0 3)) None (Some (newDate 0 2018 0 3))
   \<and> parseDueDate (exampleHost 0 (newDate 0 2018 0 3)) ''2018-01-01..foo''
       = Inr \<lparr>isRecurring = False, isRange = True,
              isDue = (if isBetween_day (exampleHost 0 (newDate 0 2018 0 3)) (Some (newDate 0 2018 0 3))
                            (Some (newDate 0 2018 0 1)) None then Due else NotDue)\<rparr>"
proof -
  have 1: "CHR ''.'' \<notin> set ''2018-01-01''" and 2: "CHR ''.'' \<notin> set ''2018-01-04''"
    and 3: "CHR ''.'' \<notin> set ''foo''"
    by simp_all
  have f: "parseDueDate (exampleHost 0 t) ''2018-01-01..2018-01-04''
       = Inr \<lparr>isRecurring = False, isRange = True,
              isDue = (if 17532 < localDay 0 t \<and> 17535 < localDay 0 t then Overdue
                       else if 17532 \<le> localDay 0 t \<and> localDay 0 t \<le> 17535 then Due else NotDue)\<rparr>" for t
    using C5_range [OF 1 2, of "exampleHost 0 t"]
    by (simp add: exampleHost_answers isoDate_values localDay_newDate MakeDay_values)
  have r: "parseDueDate (exampleHost 0 (newDate 0 2018 0 3)) ''2018-01-04..2018-01-01''
       = Inr \<lparr>isRecurring = False, isRange = True, isDue = Due\<rparr>"
    using C5_range [OF 2 1, of "exampleHost 0 (newDate 0 2018 0 3)"]
    by (simp add: exampleHost_answers isoDate_values localDay_newDate MakeDay_values)
  have m: "parseDueDate (exampleHost 0 (newDate 0 2018 0 3)) ''2018-01-01..foo''
       = Inr \<lparr>isRecurring = False, isRange = True,
              isDue = (if isBetween_day (exampleHost 0 (newDate 0 2018 0 3)) (Some (newDate 0 2018 0 3))
                            (Some (newDate 0 2018 0 1)) None then Due else NotDue)\<rparr>"
    using C5_range [OF 1 3, of "exampleHost 0 (newDate 0 2018 0 3)"]
    by (simp add: exampleHost_answers isoDate_values)
  from f [of "newDate 0 2018 0 3"] f [of "newDate 0 2018 0 7"] f [of "newDate 0 2017 11 30"] r m
  show ?thesis
    using 1 2 3 by (simp add: localDay_newDate MakeDay_values exampleHost_answers isoDate_values)
qed

section \<open>Comma-delimited alternatives\<close>






lemma getDay_zone_range: "0 \<le> getDay_zone z t \<and> getDay_zone z t < 7"
  by (simp add: getDay_zone_def)





section \<open>The scan for a missed occurrence\<close>

lemma overdueLoop_find:
  "overdueLoop f t n =
     map_option (\<lambda>i. shiftDays t (- int i))
       (find (\<lambda>i. f (shiftDays t (- int i)) \<in> {Due, Overdue}) (rev [1..<Suc n]))"
proof (induction n)
  case 0
  show ?case by simp
next
  case (Suc n)
  have "rev [1..<Suc (Suc n)] = Suc n # rev [1..<Suc n]"
    by simp
  then show ?case
    using Suc by (simp add: shiftDays_def Let_def del: upt_Suc)
qed

lemma dayjs_diff_day_shortened:
  "dayjs_diff_day (shortenToDate tz a) (shortenToDate tz b) = localDay tz a - localDay tz b"
  using calcDiffInDays_shortened [of tz b a] by (simp add: dayjs_diff_day_def calcDiffInDays_def)

lemma resetRecurringTask_scan:
  assumes "due task = Some d" and "isRecurring d" and "\<not> task_done task"
    and "overdue task = None" and "\<not> isTheSameDay tz t lastVisit"
  shows "resetRecurringTask f tz t lastVisit task =
     (case find (\<lambda>i. f (raw d) (shiftDays t (- int i)) \<in> {Due, Overdue})
             (rev [1..<Suc (nat (localDay tz t - localDay tz lastVisit))]) of
        None \<Rightarrow> []
      | Some i \<Rightarrow> [AddOverdueSpecialTag (lineNumber task) (localDay tz t - int i)])
     @ (case count task of None \<Rightarrow> [] | Some c \<Rightarrow> [SetCountCurrentValue (lineNumber task) c ''0''])"
  using assms
  by (simp add: resetRecurringTask_def Let_def dayjs_diff_day_shortened overdueLoop_find
      localDay_shiftDays split: option.splits del: upt_Suc)

lemma resetAllRecurringTasks_append:
  "resetAllRecurringTasks f tz t lastVisit (before @ task # after) =
     resetAllRecurringTasks f tz t lastVisit before
     @ resetRecurringTask f tz t lastVisit task
     @ resetAllRecurringTasks f tz t lastVisit after"
  by (simp add: resetAllRecurringTasks_def)

lemma resetAllRecurringTasks_single:
  "resetAllRecurringTasks f tz t lastVisit [task] = resetRecurringTask f tz t lastVisit task"
  by (simp add: resetAllRecurringTasks_def)

lemma upt_1_6:
  "rev [1..<Suc (nat 5)] = [5, 4, 3, 2, 1]" "rev [Suc 0..<6] = [5, 4, 3, 2, 1]"
  by (simp_all add: eval_nat_numeral)

lemma parseDue_single:
  assumes "a \<noteq> []" "CHR '','' \<notin> set a"
  shows "parseDue h a = mapResult (parseDueDate h) [a]"
proof -
  have "split '','' a = [a]"
    using assms(2) by (induction a) auto
  then show ?thesis
    using assms(1) by (simp add: parseDue_def)
qed

lemma exampleDueDate_ed: "exampleDueDate tz ''ed'' target = Due"
  using parseDue_single [of "''ed''" "exampleHost tz target"]
    parseDueDate_plain_word [of "''ed''" "exampleHost tz target"]
  by (simp add: exampleDueDate_def is_digit_def isDueToday_def combineDueStates_def)

lemma exampleDueDate_Thu:
  "exampleDueDate tz ''Thu'' target = (if getDay tz target = 4 then Due else NotDue)"
  using parseDue_single [of "''Thu''" "exampleHost tz target"]
    parseDueDate_plain_word [of "''Thu''" "exampleHost tz target"]
  by (simp add: exampleDueDate_def is_digit_def isDueToday_weekday combineDueStates_def
      exampleHost_answers)

lemma exampleTask_fields:
  "due (exampleTask e) = Some \<lparr>isRecurring = True, isRange = False, isDue = NotDue, raw = e\<rparr>"
  "task_done (exampleTask e) = False" "overdue (exampleTask e) = None"
  "count (exampleTask e) = None" "lineNumber (exampleTask e) = 4"
  by (simp_all add: exampleTask_def)

lemma getDay_shifted:
  "getDay tz (shiftDays (newDate tz 2018 0 7) (- int i)) = (17542 - int i) mod 7"
  by (simp add: getDay_def localDay_shiftDays localDay_newDate MakeDay_values)

text \<open>
  C6 (as stated, refuted): a task due every day (\<open>ed\<close>), last visited five days before
  now. The expression is Due one day before now, but the edit carries the day five days
  before now, the day of the last visit: the scan starts there and stops at its first hit.
\<close>

theorem C6_scan_order_counterexample:
  "resetAllRecurringTasks (exampleDueDate 0) 0 (newDate 0 2018 0 7) (newDate 0 2018 0 2)
       [exampleTask ''ed'']
     = [AddOverdueSpecialTag 4 (localDay 0 (newDate 0 2018 0 7) - 5)]
   \<and> exampleDueDate 0 ''ed'' (shiftDays (newDate 0 2018 0 7) (- 1)) = Due
   \<and> localDay 0 (newDate 0 2018 0 7) - localDay 0 (newDate 0 2018 0 2) = 5"
proof -
  have s: "\<not> isTheSameDay 0 (newDate 0 2018 0 7) (newDate 0 2018 0 2)"
    by (simp add: isTheSameDay_def localDay_newDate MakeDay_values)
  have n: "localDay 0 (newDate 0 2018 0 7) - localDay 0 (newDate 0 2018 0 2) = 5"
    by (simp add: localDay_newDate MakeDay_values)
  show ?thesis
    using resetRecurringTask_scan [OF exampleTask_fields(1) _ _ exampleTask_fields(3) s, of "''ed''" "exampleDueDate 0"]
    by (simp add: resetAllRecurringTasks_single exampleTask_fields exampleDueDate_ed n upt_1_6)
qed

text \<open>
  C6 (amended): for a recurring task that is not done and not flagged overdue, when now
  and the last visit are on different days, the pass looks at the days \<open>i\<close> days before
  now for \<open>i\<close> from the number of days since the last visit down to 1 (from the day of the
  last visit up to yesterday; today is not looked at), and emits one overdue tag for the
  first of them on which the expression is Due or Overdue, the one closest to the last
  visit, or none when there is no such day; the reset of the count follows, and the edits
  of the tasks stand in the order of the tasks. In particular,
  with the last visit 5 days before now and an expression that is Due or Overdue on the
  day 3 days before now and on no other of the 5 days, the one overdue tag is dated 3
  days before now.
\<close>

theorem C6_first_hit_from_last_visit:
  assumes "due task = Some d" and "isRecurring d" and "\<not> task_done task"
    and "overdue task = None" and "\<not> isTheSameDay tz t lastVisit"
  shows "resetAllRecurringTasks f tz t lastVisit (before @ task # after) =
     resetAllRecurringTasks f tz t lastVisit before
     @ (case find (\<lambda>i. f (raw d) (shiftDays t (- int i)) \<in> {Due, Overdue})
               (rev [1..<Suc (nat (localDay tz t - localDay tz lastVisit))]) of
          None \<Rightarrow> []
        | Some i \<Rightarrow> [AddOverdueSpecialTag (lineNumber task) (localDay tz t - int i)])
     @ (case count task of None \<Rightarrow> [] | Some c \<Rightarrow> [SetCountCurrentValue (lineNumber task) c ''0''])
     @ resetAllRecurringTasks f tz t lastVisit after
   \<and> (localDay tz t - localDay tz lastVisit = 5
        \<and> list_all (\<lambda>i. (f (raw d) (shiftDays t (- int i)) \<in> {Due, Overdue}) = (i = 3)) [1, 2, 3, 4, 5]
      \<longrightarrow> resetAllRecurringTasks f tz t lastVisit [task] =
            [AddOverdueSpecialTag (lineNumber task) (localDay tz t - 3)]
            @ (case count task of None \<Rightarrow> [] | Some c \<Rightarrow> [SetCountCurrentValue (lineNumber task) c ''0'']))"
proof -
  note scan = resetRecurringTask_scan [OF assms, of f]
  have "resetRecurringTask f tz t lastVisit task =
            [AddOverdueSpecialTag (lineNumber task) (localDay tz t - 3)]
            @ (case count task of None \<Rightarrow> [] | Some c \<Rightarrow> [SetCountCurrentValue (lineNumber task) c ''0''])"
    if "localDay tz t - localDay tz lastVisit = 5"
      and "list_all (\<lambda>i. (f (raw d) (shiftDays t (- int i)) \<in> {Due, Overdue}) = (i = 3)) [1, 2, 3, 4, 5]"
    unfolding scan that(1) upt_1_6(1) using that(2) by simp
  then have fixture:
    "localDay tz t - localDay tz lastVisit = 5
        \<and> list_all (\<lambda>i. (f (raw d) (shiftDays t (- int i)) \<in> {Due, Overdue}) = (i = 3)) [1, 2, 3, 4, 5]
      \<longrightarrow> resetAllRecurringTasks f tz t lastVisit [task] =
            [AddOverdueSpecialTag (lineNumber task) (localDay tz t - 3)]
            @ (case count task of None \<Rightarrow> [] | Some c \<Rightarrow> [SetCountCurrentValue (lineNumber task) c ''0''])"
    unfolding resetAllRecurringTasks_single by blast
  have pass: "resetAllRecurringTasks f tz t lastVisit (before @ task # after) =
     resetAllRecurringTasks f tz t lastVisit before
     @ (case find (\<lambda>i. f (raw d) (shiftDays t (- int i)) \<in> {Due, Overdue})
               (rev [1..<Suc (nat (localDay tz t - localDay tz lastVisit))]) of
          None \<Rightarrow> []
        | Some i \<Rightarrow> [AddOverdueSpecialTag (lineNumber task) (localDay tz t - int i)])
     @ (case count task of None \<Rightarrow> [] | Some c \<Rightarrow> [SetCountCurrentValue (lineNumber task) c ''0''])
     @ resetAllRecurringTasks f tz t lastVisit after"
    unfolding resetAllRecurringTasks_append scan by (simp only: append_assoc)
  from pass fixture show ?thesis
    by (rule conjI)
qed

text \<open>
  Witness for C6: now is Sunday 2018-01-07, the last visit was on 2018-01-02, and the task
  is due on Thursdays; the tag is dated Thursday 2018-01-04.
\<close>

theorem C6_first_hit_from_last_visit_witness:
  "due (exampleTask ''Thu'') = Some \<lparr>isRecurring = True, isRange = False, isDue = NotDue, raw = ''Thu''\<rparr>
   \<and> \<not> task_done (exampleTask ''Thu'') \<and> overdue (exampleTask ''Thu'') = None
   \<and> \<not> isTheSameDay 0 (newDate 0 2018 0 7) (newDate 0 2018 0 2)
   \<and> localDay 0 (newDate 0 2018 0 7) - localDay 0 (newDate 0 2018 0 2) = 5
   \<and> list_all (\<lambda>i. (exampleDueDate 0 ''Thu'' (shiftDays (newDate 0 2018 0 7) (- int i)) \<in> {Due, Overdue}) = (i = 3))
        [1, 2, 3, 4, 5]
   \<and> resetAllRecurringTasks (exampleDueDate 0) 0 (newDate 0 2018 0 7) (newDate 0 2018 0 2)
         [exampleTask ''Thu'']
       = [AddOverdueSpecialTag 4 (localDay 0 (newDate 0 2018 0 7) - 3)]"
proof -
  have s: "\<not> isTheSameDay 0 (newDate 0 2018 0 7) (newDate 0 2018 0 2)"
    by (simp add: isTheSameDay_def localDay_newDate MakeDay_values)
  have n: "localDay 0 (newDate 0 2018 0 7) - localDay 0 (newDate 0 2018 0 2) = 5"
    by (simp add: localDay_newDate MakeDay_values)
  have r: "isRecurring \<lparr>isRecurring = True, isRange = False, isDue = NotDue, raw = ''Thu''\<rparr>"
    by simp
  have d: "\<not> task_done (exampleTask ''Thu'')"
    by (simp add: exampleTask_fields)
  have h: "list_all (\<lambda>i. (exampleDueDate 0 ''Thu'' (shiftDays (newDate 0 2018 0 7) (- int i)) \<in> {Due, Overdue}) = (i = 3))
        [1, 2, 3, 4, 5]"
    by (simp add: exampleDueDate_Thu getDay_shifted)
  have "resetAllRecurringTasks (exampleDueDate 0) 0 (newDate 0 2018 0 7) (newDate 0 2018 0 2)
         [exampleTask ''Thu'']
       = [AddOverdueSpecialTag (lineNumber (exampleTask ''Thu'')) (localDay 0 (newDate 0 2018 0 7) - 3)]
         @ (case count (exampleTask ''Thu'') of None \<Rightarrow> []
            | Some c \<Rightarrow> [SetCountCurrentValue (lineNumber (exampleTask ''Thu'')) c ''0''])"
    using C6_first_hit_from_last_visit [OF exampleTask_fields(1) r d exampleTask_fields(3) s,
        of "exampleDueDate 0", THEN conjunct2] n h
    by (simp only: exampleTask_fields DueDate.simps simp_thms)
  then show ?thesis
    using s n h d by (simp add: exampleTask_fields)
qed


section \<open>The grouping does not read its argument\<close>

text \<open>
  C9: the result of \<open>groupAndSortTreeItems\<close> does not depend on its argument: with the
  same global state and configuration, any two argument lists give the same result (the
  same grouping, or the same error). When \<open>forEachTask\<close> visits no task, the grouping is
  empty whatever the argument holds.
\<close>

theorem C9_groupAndSortTreeItems_ignores_argument:
  "groupAndSortTreeItems g tasks1 = groupAndSortTreeItems g tasks2
   \<and> groupAndSortTreeItems (g\<lparr>visitedTasks := []\<rparr>) tasks1
       = Inr \<lparr>tags = [], contexts = [], projects = [], tagsForProvider = [],
              projectsForProvider = [], contextsForProvider = []\<rparr>"
  by (simp add: groupAndSortTreeItems_def objectKeys_def itemsForProvider_def
      sortItemsForProvider_def arraySort_def)

end
